theory Spec2Isabelle
  imports Complex_Main
begin

section \<open>JavaScript values used by the storefront\<close>

text \<open>
  A JavaScript number is a finite real (every double is one), an infinity or NaN.
  Comparisons with NaN are false, as in the language.
\<close>

datatype jsnum = Fin real | PosInf | NegInf | NaN

fun js_lt :: "jsnum \<Rightarrow> jsnum \<Rightarrow> bool" where
  "js_lt NaN _ = False"
| "js_lt _ NaN = False"
| "js_lt (Fin a) (Fin b) = (a < b)"
| "js_lt (Fin a) PosInf = True"
| "js_lt (Fin a) NegInf = False"
| "js_lt PosInf _ = False"
| "js_lt NegInf NegInf = False"
| "js_lt NegInf _ = True"

text \<open>\<open>a <= b\<close> is "not \<open>b < a\<close>" unless an operand is NaN; \<open>a > b\<close> is \<open>b < a\<close>.\<close>

definition js_le :: "jsnum \<Rightarrow> jsnum \<Rightarrow> bool" where
  "js_le a b = (a \<noteq> NaN \<and> b \<noteq> NaN \<and> \<not> js_lt b a)"

definition js_gt :: "jsnum \<Rightarrow> jsnum \<Rightarrow> bool" where
  "js_gt a b = js_lt b a"

text \<open>Values that come out of \<open>JSON.parse\<close>; an object is its list of entries (keys distinct).\<close>

datatype json =
  JNull | JBool bool | JNum jsnum | JStr string | JArr "json list" | JObj "(string \<times> json) list"

text \<open>Errors keep their class and their \<open>message\<close>.\<close>

datatype js_error =
  Error string | TypeError string | SyntaxError string | QuotaExceededError string

fun error_message :: "js_error \<Rightarrow> string" where
  "error_message (Error m) = m"
| "error_message (TypeError m) = m"
| "error_message (SyntaxError m) = m"
| "error_message (QuotaExceededError m) = m"

text \<open>Truthiness, as \<open>if (v)\<close>, \<open>v || w\<close> and \<open>!!v\<close> read it.\<close>

fun truthy :: "json \<Rightarrow> bool" where
  "truthy JNull = False"
| "truthy (JBool b) = b"
| "truthy (JNum n) = (n \<noteq> Fin 0 \<and> n \<noteq> NaN)"
| "truthy (JStr s) = (s \<noteq> [])"
| "truthy (JArr xs) = True"
| "truthy (JObj kvs) = True"

text \<open>\<open>localStorage.getItem\<close> gives a string or null; only a non-empty string is truthy.\<close>

fun truthy_item :: "string option \<Rightarrow> bool" where
  "truthy_item None = False"
| "truthy_item (Some s) = (s \<noteq> [])"

subsection \<open>Numbers and values as text\<close>

fun show_nat :: "nat \<Rightarrow> string" where
  "show_nat n =
     (if n < 10 then [''0123456789'' ! n]
      else show_nat (n div 10) @ [''0123456789'' ! (n mod 10)])"

declare show_nat.simps [simp del]

text \<open>
  \<open>Number::toString\<close>. An integer below \<open>2^53\<close> in magnitude prints as its decimal
  digits; the shortest round-trip decimal of any other finite number is the engine's
  (\<open>sh\<close>).
\<close>

definition num_to_string :: "(real \<Rightarrow> string) \<Rightarrow> jsnum \<Rightarrow> string" where
  "num_to_string sh n =
     (case n of
        NaN \<Rightarrow> ''NaN''
      | PosInf \<Rightarrow> ''Infinity''
      | NegInf \<Rightarrow> ''-Infinity''
      | Fin x \<Rightarrow>
          if of_int \<lfloor>x\<rfloor> = x \<and> \<bar>x\<bar> < 2 ^ 53
          then (if x < 0 then ''-'' else []) @ show_nat (nat \<bar>\<lfloor>x\<rfloor>\<bar>)
          else sh x)"

text \<open>
  \<open>Number.prototype.toFixed(f)\<close> for \<open>f \<ge> 1\<close>: the nearest integer to \<open>x * 10^f\<close> (the
  larger one on a tie), zero-padded to \<open>f + 1\<close> digits, with a point before the last
  \<open>f\<close> digits. Magnitudes from \<open>10^21\<close> on and the non-finite numbers print as
  \<open>Number::toString\<close> does.
\<close>

definition fixed_digits :: "nat \<Rightarrow> real \<Rightarrow> string" where
  "fixed_digits f x =
     (let m = show_nat (nat \<lfloor>x * 10 ^ f + 1 / 2\<rfloor>);
          m' = (if length m \<le> f then replicate (f + 1 - length m) (CHR ''0'') @ m else m)
      in take (length m' - f) m' @ ''.'' @ drop (length m' - f) m')"

definition toFixed :: "(real \<Rightarrow> string) \<Rightarrow> nat \<Rightarrow> jsnum \<Rightarrow> string" where
  "toFixed sh f n =
     (case n of
        Fin x \<Rightarrow>
          if \<bar>x\<bar> < 10 ^ 21
          then (if x < 0 then ''-'' else []) @ fixed_digits f \<bar>x\<bar>
          else num_to_string sh n
      | _ \<Rightarrow> num_to_string sh n)"

fun join_comma :: "string list \<Rightarrow> string" where
  "join_comma [] = []"
| "join_comma [s] = s"
| "join_comma (s # t # ss) = s @ '','' @ join_comma (t # ss)"

text \<open>\<open>String(v)\<close>, which \<open>new Error(v)\<close>, a template literal and \<open>setItem\<close> apply.\<close>

fun to_string :: "(real \<Rightarrow> string) \<Rightarrow> json \<Rightarrow> string" where
  "to_string sh JNull = ''null''"
| "to_string sh (JBool b) = (if b then ''true'' else ''false'')"
| "to_string sh (JNum n) = num_to_string sh n"
| "to_string sh (JStr s) = s"
| "to_string sh (JArr xs) =
     join_comma (map (\<lambda>x. if x = JNull then [] else to_string sh x) xs)"
| "to_string sh (JObj kvs) = ''[object Object]''"

text \<open>
  \<open>JSON.stringify\<close> on these values: a string is quoted, with the quote, the backslash
  and the control characters escaped; a number that is not finite becomes \<open>null\<close>.
\<close>

definition hex_digit :: "nat \<Rightarrow> char" where
  "hex_digit d = ''0123456789abcdef'' ! d"

definition escape_char :: "char \<Rightarrow> string" where
  "escape_char c =
     (if c = CHR 0x22 then [CHR 0x5C, CHR 0x22]
      else if c = CHR 0x5C then [CHR 0x5C, CHR 0x5C]
      else if c = CHR 0x08 then [CHR 0x5C, CHR ''b'']
      else if c = CHR 0x0C then [CHR 0x5C, CHR ''f'']
      else if c = CHR 0x0A then [CHR 0x5C, CHR ''n'']
      else if c = CHR 0x0D then [CHR 0x5C, CHR ''r'']
      else if c = CHR 0x09 then [CHR 0x5C, CHR ''t'']
      else if (of_char c :: nat) < 32
        then [CHR 0x5C, CHR ''u'', CHR ''0'', CHR ''0'',
              hex_digit (of_char c div 16), hex_digit (of_char c mod 16)]
      else [c])"

definition quote :: "string \<Rightarrow> string" where
  "quote s = CHR 0x22 # concat (map escape_char s) @ [CHR 0x22]"

fun json_stringify :: "(real \<Rightarrow> string) \<Rightarrow> json \<Rightarrow> string" where
  "json_stringify sh JNull = ''null''"
| "json_stringify sh (JBool b) = (if b then ''true'' else ''false'')"
| "json_stringify sh (JNum n) =
     (case n of Fin x \<Rightarrow> num_to_string sh n | _ \<Rightarrow> ''null'')"
| "json_stringify sh (JStr s) = quote s"
| "json_stringify sh (JArr xs) = ''['' @ join_comma (map (json_stringify sh) xs) @ '']''"
| "json_stringify sh (JObj kvs) =
     ''{'' @ join_comma (map (\<lambda>(k, v). quote k @ '':'' @ json_stringify sh v) kvs) @ ''}''"

section \<open>The browser and the engine\<close>

datatype payload = NoBody | JsonBody string | FormBody "(string \<times> string) list"

record request =
  req_method :: string
  url :: string
  headers :: "(string \<times> string) list"
  payload :: payload

text \<open>
  A response as \<open>handleResponse\<close> reads it: \<open>status\<close>, and what \<open>response.json()\<close>
  resolves to (\<open>None\<close> when it rejects: no body, or not JSON). \<open>ok\<close> is a 2xx status.
\<close>

record response =
  status :: nat
  body :: "json option"

definition ok :: "response \<Rightarrow> bool" where
  "ok r = (200 \<le> status r \<and> status r \<le> 299)"

datatype fetch_result = Rejected js_error | Response response

text \<open>
  What the code takes from its surroundings: the configured base URL, the network
  behind \<open>fetch\<close>, \<open>JSON.parse\<close> (\<open>None\<close> when it throws), the engine's shortest
  decimal of a number, the wording of the errors the engine itself raises, and whether
  \<open>localStorage.setItem\<close> throws for a given content, key and value (the quota is
  exceeded, or storage is disabled).
\<close>

record env =
  baseURL :: string
  fetch :: "request \<Rightarrow> fetch_result"
  json_parse :: "string \<Rightarrow> json option"
  shortest :: "real \<Rightarrow> string"
  type_error_text :: string
  syntax_error_text :: string
  setItem_throws :: "(string \<Rightarrow> string option) \<Rightarrow> string \<Rightarrow> string \<Rightarrow> bool"
  quota_error_text :: string

text \<open>A toast as \<open>showToast\<close> builds it, and a mounted \<open>Toast\<close> component: its visible
  list and the timeouts it has pending, each with the time it is due and the id it removes.\<close>

record toast =
  tid :: nat
  tmessage :: string
  ttype :: string
  timestamp :: nat

record toast_view =
  toasts :: "toast list"
  timers :: "(nat \<times> nat) list"

text \<open>
  The state outside the components: \<open>localStorage\<close>, the last value assigned to
  \<open>window.location.href\<close>, the \<open>fetch\<close> calls issued so far, the module-level \<open>toastId\<close>,
  one entry of \<open>toastListeners\<close> per mounted \<open>Toast\<close>, and the clock in milliseconds.
\<close>

record world =
  storage :: "string \<Rightarrow> string option"
  href :: string
  requests :: "request list"
  toastId :: nat
  toastListeners :: "toast_view list"
  now :: nat

text \<open>
  Reading property \<open>k\<close> of a value: a TypeError on null, the entry of an object
  (\<open>None\<close> is \<open>undefined\<close>), \<open>undefined\<close> on anything else (none of the keys read here is a
  built-in property of a string, a number or an array).
\<close>

fun get_prop :: "env \<Rightarrow> json \<Rightarrow> string \<Rightarrow> js_error + json option" where
  "get_prop e JNull k = Inl (TypeError (type_error_text e))"
| "get_prop e (JObj kvs) k = Inr (map_of kvs k)"
| "get_prop e v k = Inr None"

section \<open>The API service\<close>

definition getAuthHeaders :: "world \<Rightarrow> (string \<times> string) list" where
  "getAuthHeaders w =
     (let token = storage w ''access_token'' in
      (''Content-Type'', ''application/json'') #
      (case token of
         None \<Rightarrow> []
       | Some t \<Rightarrow> if t \<noteq> [] then [(''Authorization'', ''Bearer '' @ t)] else []))"

definition handleResponse :: "env \<Rightarrow> response \<Rightarrow> world \<Rightarrow> (js_error + json) \<times> world" where
  "handleResponse e r w =
     (if status r = 401 then
        (Inl (Error ''Session expired. Please login again.''),
         w\<lparr>storage := ((storage w)(''access_token'' := None))(''user'' := None),
           href := ''/login''\<rparr>)
      else if \<not> ok r then
        (let errorData = (case body r of None \<Rightarrow> JObj [] | Some v \<Rightarrow> v) in
         case get_prop e errorData ''detail'' of
           Inl err \<Rightarrow> (Inl err, w)
         | Inr detail \<Rightarrow>
             (Inl (Error
                (case detail of
                   Some d \<Rightarrow>
                     if truthy d then to_string (shortest e) d
                     else ''HTTP error! status: '' @ show_nat (status r)
                 | None \<Rightarrow> ''HTTP error! status: '' @ show_nat (status r))), w))
      else if status r = 204 then (Inr JNull, w)
      else
        (case body r of
           None \<Rightarrow> (Inl (SyntaxError (syntax_error_text e)), w)
         | Some v \<Rightarrow> (Inr v, w)))"

text \<open>Every operation issues one \<open>fetch\<close> and hands the response to \<open>handleResponse\<close>;
  a rejected \<open>fetch\<close> is the operation's error.\<close>

definition send :: "env \<Rightarrow> request \<Rightarrow> world \<Rightarrow> (js_error + json) \<times> world" where
  "send e req w =
     (let w1 = w\<lparr>requests := requests w @ [req]\<rparr> in
      case fetch e req of
        Rejected err \<Rightarrow> (Inl err, w1)
      | Response r \<Rightarrow> handleResponse e r w1)"

definition login_request :: "env \<Rightarrow> string \<Rightarrow> string \<Rightarrow> request" where
  "login_request e username password =
     \<lparr>req_method = ''POST'', url = baseURL e @ ''/api/auth/login'', headers = [],
      payload = FormBody [(''username'', username), (''password'', password)]\<rparr>"

definition api_login :: "env \<Rightarrow> string \<Rightarrow> string \<Rightarrow> world \<Rightarrow> (js_error + json) \<times> world" where
  "api_login e username password w = send e (login_request e username password) w"

definition getSweets :: "env \<Rightarrow> world \<Rightarrow> (js_error + json) \<times> world" where
  "getSweets e w =
     send e \<lparr>req_method = ''GET'', url = baseURL e @ ''/api/sweets'',
            headers = getAuthHeaders w, payload = NoBody\<rparr> w"

definition purchaseSweet :: "env \<Rightarrow> nat \<Rightarrow> json \<Rightarrow> world \<Rightarrow> (js_error + json) \<times> world" where
  "purchaseSweet e i purchaseData w =
     send e \<lparr>req_method = ''POST'',
            url = baseURL e @ ''/api/sweets/'' @ show_nat i @ ''/purchase'',
            headers = getAuthHeaders w,
            payload = JsonBody (json_stringify (shortest e) purchaseData)\<rparr> w"

definition isAuthenticated :: "world \<Rightarrow> bool" where
  "isAuthenticated w = truthy_item (storage w ''access_token'')"

definition getStoredUser :: "env \<Rightarrow> world \<Rightarrow> js_error + json" where
  "getStoredUser e w =
     (case storage w ''user'' of
        None \<Rightarrow> Inr JNull
      | Some userStr \<Rightarrow>
          if userStr \<noteq> [] then
            (case json_parse e userStr of
               None \<Rightarrow> Inl (SyntaxError (syntax_error_text e))
             | Some v \<Rightarrow> Inr v)
          else Inr JNull)"

definition getErrorMessage :: "js_error \<Rightarrow> string" where
  "getErrorMessage err =
     (if error_message err \<noteq> [] then error_message err
      else ''An unexpected error occurred. Please try again.'')"

section \<open>The toast notification system\<close>

text \<open>The listener a mounted \<open>Toast\<close> registers: it appends the toast to the visible
  list and sets a timeout of 4000 ms that removes the toast's id.\<close>

definition listener :: "nat \<Rightarrow> toast \<Rightarrow> toast_view \<Rightarrow> toast_view" where
  "listener t0 t v =
     v\<lparr>toasts := toasts v @ [t], timers := timers v @ [(t0 + 4000, tid t)]\<rparr>"

definition showToast :: "world \<Rightarrow> string \<Rightarrow> string \<Rightarrow> nat \<times> world" where
  "showToast w msg ty =
     (let t = \<lparr>tid = toastId w + 1, tmessage = msg, ttype = ty, timestamp = now w\<rparr>
      in (tid t,
          w\<lparr>toastId := toastId w + 1,
            toastListeners := map (listener (now w) t) (toastListeners w)\<rparr>))"

definition showSuccess :: "world \<Rightarrow> string \<Rightarrow> nat \<times> world" where
  "showSuccess w msg = showToast w msg ''success''"

definition showError :: "world \<Rightarrow> string \<Rightarrow> nat \<times> world" where
  "showError w msg = showToast w msg ''error''"

text \<open>\<open>removeToast\<close> (a click on the toast) and the timeout's callback apply the same filter.\<close>

definition removeToast :: "nat \<Rightarrow> toast_view \<Rightarrow> toast_view" where
  "removeToast i v = v\<lparr>toasts := filter (\<lambda>t. tid t \<noteq> i) (toasts v)\<rparr>"

definition timeout_callback :: "nat \<Rightarrow> toast list \<Rightarrow> toast list" where
  "timeout_callback i ts = filter (\<lambda>t. tid t \<noteq> i) ts"

text \<open>
  The event loop. Time passes without anything running (\<open>elapse\<close>); a pending timeout
  may run once the clock has reached the time it is due: no earlier, possibly later,
  which is all \<open>setTimeout\<close> promises. Running the \<open>j\<close>-th pending timeout of the
  \<open>k\<close>-th mounted \<open>Toast\<close> applies its callback and drops it from the pending list; a
  timeout that is not due yet does not run.
\<close>

definition elapse :: "nat \<Rightarrow> world \<Rightarrow> world" where
  "elapse d w = w\<lparr>now := now w + d\<rparr>"

definition run_timeout :: "nat \<Rightarrow> nat \<Rightarrow> world \<Rightarrow> world" where
  "run_timeout k j w =
     (if k < length (toastListeners w) then
        (let v = toastListeners w ! k in
         if j < length (timers v) \<and> fst (timers v ! j) \<le> now w then
           w\<lparr>toastListeners := (toastListeners w)
               [k := v\<lparr>toasts := timeout_callback (snd (timers v ! j)) (toasts v),
                       timers := take j (timers v) @ drop (Suc j) (timers v)\<rparr>]\<rparr>
         else w)
      else w)"

text \<open>Mounting a \<open>Toast\<close> pushes its listener; a click reaches the view it happened in.\<close>

definition mount_toast :: "world \<Rightarrow> world" where
  "mount_toast w = w\<lparr>toastListeners := toastListeners w @ [\<lparr>toasts = [], timers = []\<rparr>]\<rparr>"

definition click_toast :: "nat \<Rightarrow> nat \<Rightarrow> world \<Rightarrow> world" where
  "click_toast k i w =
     (if k < length (toastListeners w)
      then w\<lparr>toastListeners := (toastListeners w)[k := removeToast i (toastListeners w ! k)]\<rparr>
      else w)"

text \<open>Unmounting splices the component's listener out of \<open>toastListeners\<close>.\<close>

definition unmount_toast :: "nat \<Rightarrow> world \<Rightarrow> world" where
  "unmount_toast k w =
     w\<lparr>toastListeners := take k (toastListeners w) @ drop (Suc k) (toastListeners w)\<rparr>"

datatype toast_event =
  Publish string string | Click nat nat | Elapse nat | Timeout nat nat | Mount | Unmount nat

fun toast_step :: "world \<Rightarrow> toast_event \<Rightarrow> world" where
  "toast_step w (Publish msg ty) = snd (showToast w msg ty)"
| "toast_step w (Click k i) = click_toast k i w"
| "toast_step w (Elapse d) = elapse d w"
| "toast_step w (Timeout k j) = run_timeout k j w"
| "toast_step w Mount = mount_toast w"
| "toast_step w (Unmount k) = unmount_toast k w"


text \<open>A page that has just loaded: nothing published, nothing mounted.\<close>

definition fresh_page :: "(string \<Rightarrow> string option) \<Rightarrow> world" where
  "fresh_page st =
     \<lparr>storage = st, href = ''/'', requests = [], toastId = 0, toastListeners = [], now = 0\<rparr>"

section \<open>The authentication context\<close>

record auth =
  user :: json
  loading :: bool

record result =
  success :: bool
  message :: string

definition initial_auth :: auth where
  "initial_auth = \<lparr>user = JNull, loading = True\<rparr>"

text \<open>The effect \<open>AuthProvider\<close> runs on startup. An exception of \<open>JSON.parse\<close> leaves the
  effect before \<open>setLoading(false)\<close>.\<close>

definition mount_effect :: "env \<Rightarrow> world \<Rightarrow> auth \<Rightarrow> js_error + auth" where
  "mount_effect e w a =
     (let storedUser = storage w ''user''; token = storage w ''token'' in
      if truthy_item storedUser \<and> truthy_item token then
        (case storedUser of
           None \<Rightarrow> Inr (a\<lparr>loading := False\<rparr>)
         | Some s \<Rightarrow>
             (case json_parse e s of
                None \<Rightarrow> Inl (SyntaxError (syntax_error_text e))
              | Some v \<Rightarrow> Inr (a\<lparr>user := v, loading := False\<rparr>)))
      else Inr (a\<lparr>loading := False\<rparr>))"

definition rehydrate :: "env \<Rightarrow> world \<Rightarrow> js_error + auth" where
  "rehydrate e w = mount_effect e w initial_auth"

text \<open>The context's \<open>isAuthenticated\<close> is \<open>!!user\<close>.\<close>

definition authenticated :: "auth \<Rightarrow> bool" where
  "authenticated a = truthy (user a)"

text \<open>
  \<open>login\<close>. Inside the \<open>try\<close> the source calls \<open>setUser\<close> first and the two \<open>setItem\<close>
  after it, so a \<open>setItem\<close> that throws is caught with the user already set, and the
  second one with the \<open>user\<close> entry already written.
\<close>

definition login :: "env \<Rightarrow> string \<Rightarrow> string \<Rightarrow> world \<Rightarrow> auth \<Rightarrow> result \<times> world \<times> auth" where
  "login e username password w a =
     (case api_login e username password w of
        (Inl err, w1) \<Rightarrow> (\<lparr>success = False, message = getErrorMessage err\<rparr>, w1, a)
      | (Inr resp, w1) \<Rightarrow>
          (case get_prop e resp ''access_token'' of
             Inl err \<Rightarrow> (\<lparr>success = False, message = getErrorMessage err\<rparr>, w1, a)
           | Inr None \<Rightarrow> (\<lparr>success = False, message = ''Invalid credentials''\<rparr>, w1, a)
           | Inr (Some tok) \<Rightarrow>
               if truthy tok then
                 (let userData = JObj [(''username'', JStr username), (''token'', tok)];
                      a1 = a\<lparr>user := userData\<rparr>;
                      userStr = json_stringify (shortest e) userData;
                      tokStr = to_string (shortest e) tok;
                      thrown = \<lparr>success = False,
                                message = getErrorMessage
                                  (QuotaExceededError (quota_error_text e))\<rparr>
                  in if setItem_throws e (storage w1) ''user'' userStr then (thrown, w1, a1)
                     else
                       (let w2 = w1\<lparr>storage := (storage w1)(''user'' \<mapsto> userStr)\<rparr> in
                        if setItem_throws e (storage w2) ''token'' tokStr then (thrown, w2, a1)
                        else
                          (\<lparr>success = True, message = ''Login successful''\<rparr>,
                           w2\<lparr>storage := (storage w2)(''token'' \<mapsto> tokStr)\<rparr>, a1)))
               else (\<lparr>success = False, message = ''Invalid credentials''\<rparr>, w1, a)))"

definition logout :: "world \<Rightarrow> auth \<Rightarrow> world \<times> auth" where
  "logout w a =
     (snd (showSuccess
        (w\<lparr>storage := ((storage w)(''user'' := None))(''token'' := None)\<rparr>)
        ''Logged out successfully''),
      a\<lparr>user := JNull\<rparr>)"

section \<open>The sweet card\<close>

record sweet =
  sweet_id :: nat
  name :: string
  category :: string
  price :: jsnum
  quantity :: jsnum

record card =
  isLoading :: bool
  purchaseQuantity :: jsnum
  showQuantitySelector :: bool

text \<open>
  \<open>handlePurchase\<close>, from the card's state when the handler starts to its state when the
  handler is done, with the number of \<open>onUpdate\<close> calls made. \<open>onUpdate\<close> says whether the
  owner passed the callback. The template literal is evaluated before \<open>showSuccess\<close> is
  called, so a response without a numeric \<open>total_cost\<close> raises a TypeError first.
\<close>

definition handlePurchase ::
  "env \<Rightarrow> sweet \<Rightarrow> bool \<Rightarrow> world \<Rightarrow> card \<Rightarrow> world \<times> card \<times> nat" where
  "handlePurchase e sw onUpdate w c =
     (if js_le (purchaseQuantity c) (Fin 0) \<or> js_gt (purchaseQuantity c) (quantity sw) then
        (snd (showError w ''Invalid quantity selected''), c, 0)
      else
        (let c1 = c\<lparr>isLoading := True\<rparr>;
             failed = (\<lambda>err w'.
               (snd (showError w' (getErrorMessage err)), c1\<lparr>isLoading := False\<rparr>, 0))
         in
         case purchaseSweet e (sweet_id sw)
                (JObj [(''quantity'', JNum (purchaseQuantity c))]) w of
           (Inl err, w1) \<Rightarrow> failed err w1
         | (Inr resp, w1) \<Rightarrow>
             (case get_prop e resp ''total_cost'' of
                Inl err \<Rightarrow> failed err w1
              | Inr None \<Rightarrow> failed (TypeError (type_error_text e)) w1
              | Inr (Some (JNum x)) \<Rightarrow>
                  (snd (showSuccess w1
                     (''Purchased '' @ num_to_string (shortest e) (purchaseQuantity c) @ '' '' @
                      name sw @ ''(s) for '' @ toFixed (shortest e) 2 x)),
                   c1\<lparr>showQuantitySelector := False, purchaseQuantity := Fin 1,
                      isLoading := False\<rparr>,
                   if onUpdate then 1 else 0)
              | Inr (Some _) \<Rightarrow> failed (TypeError (type_error_text e)) w1)))"

section \<open>Reference values\<close>


text \<open>
  An environment for the worked examples. Its \<open>JSON.parse\<close> reads the documents the
  examples store (the user record of \<open>testuser\<close>, and \<open>null\<close>) and rejects the other
  strings the examples use, none of which is JSON; its network is down unless an example
  puts a response in, and its storage accepts every write unless an example fills it.
  The examples print integers only, so the shortest decimal of another number is never
  asked for.
\<close>

definition user_doc :: json where
  "user_doc = JObj [(''username'', JStr ''testuser''), (''token'', JStr ''abc'')]"

definition demo_parse :: "string \<Rightarrow> json option" where
  "demo_parse s =
     (if s = json_stringify (\<lambda>x. []) user_doc then Some user_doc
      else if s = ''null'' then Some JNull
      else None)"

definition demo_env :: env where
  "demo_env =
     \<lparr>baseURL = ''http://localhost:8000'',
      fetch = (\<lambda>req. Rejected (TypeError ''Failed to fetch'')),
      json_parse = demo_parse,
      shortest = (\<lambda>x. []),
      type_error_text = ''Cannot read properties of null'',
      syntax_error_text = ''Unexpected end of JSON input'',
      setItem_throws = (\<lambda>st k v. False),
      quota_error_text = ''The quota has been exceeded.''\<rparr>"

definition answering :: "response \<Rightarrow> env" where
  "answering r = demo_env\<lparr>fetch := (\<lambda>req. Response r)\<rparr>"


text \<open>Whether the server answers a request with status 401, and whether storage \<open>st\<close>
  accepts the two writes of a login of \<open>u\<close> with token \<open>t\<close>.\<close>

definition answered_401 :: "env \<Rightarrow> request \<Rightarrow> bool" where
  "answered_401 e req = (case fetch e req of Response r \<Rightarrow> status r = 401 | Rejected err \<Rightarrow> False)"


text \<open>The credential token a response of the HTTP client contains: the truthy
  \<open>access_token\<close> entry of a result that is an object.\<close>

fun response_token :: "js_error + json \<Rightarrow> json option" where
  "response_token (Inr (JObj kvs)) =
     (case map_of kvs ''access_token'' of
        Some t \<Rightarrow> if truthy t then Some t else None
      | None \<Rightarrow> None)"
| "response_token _ = None"


definition after_login :: world where
  "after_login =
     fst (snd (login (answering \<lparr>status = 200, body = Some (JObj [(''access_token'', JStr ''abc'')])\<rparr>)
                 ''testuser'' ''test123'' (fresh_page Map.empty) initial_auth))"

text \<open>A rendering with exactly two fractional digits: an optional minus sign, at least
  one digit, a point, two digits.\<close>

definition is_digit :: "char \<Rightarrow> bool" where
  "is_digit c = (c \<in> set ''0123456789'')"

definition unsigned :: "string \<Rightarrow> string" where
  "unsigned s = (if s \<noteq> [] \<and> hd s = CHR ''-'' then tl s else s)"

definition two_decimals :: "string \<Rightarrow> bool" where
  "two_decimals s =
     (let u = unsigned s; n = length u
      in 4 \<le> n \<and> list_all is_digit (take (n - 3) u) \<and> u ! (n - 3) = CHR ''.'' \<and>
         list_all is_digit (drop (n - 2) u))"

text \<open>Product 5 with a given stock, a card in the quantity-selection state, and a page
  with one \<open>Toast\<close> mounted.\<close>

definition sweet5 :: "jsnum \<Rightarrow> sweet" where
  "sweet5 q =
     \<lparr>sweet_id = 5, name = ''Ladoo'', category = ''Indian'', price = Fin (5 / 2), quantity = q\<rparr>"

definition selecting :: "jsnum \<Rightarrow> card" where
  "selecting q = \<lparr>isLoading = False, purchaseQuantity = q, showQuantitySelector = True\<rparr>"

definition one_toast_page :: world where
  "one_toast_page = mount_toast (fresh_page Map.empty)"

text \<open>The page a request answered 401 leaves after the login of \<open>testuser\<close>.\<close>

definition expired_page :: world where
  "expired_page = snd (getSweets (answering \<lparr>status = 401, body = None\<rparr>) after_login)"

text \<open>The state without a session, once startup is over.\<close>

definition anonymous :: auth where
  "anonymous = \<lparr>user = JNull, loading = False\<rparr>"

text \<open>A freshly loaded page over the given storage entries.\<close>

definition stored :: "(string \<times> string) list \<Rightarrow> world" where
  "stored kvs = fresh_page (map_of kvs)"





text \<open>
  A run of the application: logins, logouts, other calls of the API service, and what
  happens to the toasts, in any order.
\<close>

datatype app_event =
  LoginEv env string string | LogoutEv | CallEv env request | ToastEv toast_event

fun app_step :: "world \<times> auth \<Rightarrow> app_event \<Rightarrow> world \<times> auth" where
  "app_step (w, a) (LoginEv e u p) = snd (login e u p w a)"
| "app_step (w, a) LogoutEv = logout w a"
| "app_step (w, a) (CallEv e req) = (snd (send e req w), a)"
| "app_step (w, a) (ToastEv ev) = (toast_step w ev, a)"

definition app_run :: "world \<times> auth \<Rightarrow> app_event list \<Rightarrow> world \<times> auth" where
  "app_run s evs = foldl app_step s evs"

section \<open>Properties\<close>

subsection \<open>The environment of the examples\<close>

lemma answering_fields:
  "fetch (answering r) = (\<lambda>req. Response r)"
  "baseURL (answering r) = ''http://localhost:8000''"
  "json_parse (answering r) = demo_parse"
  "shortest (answering r) = (\<lambda>x. [])"
  "type_error_text (answering r) = ''Cannot read properties of null''"
  "syntax_error_text (answering r) = ''Unexpected end of JSON input''"
  "setItem_throws (answering r) = (\<lambda>st k v. False)"
  by (simp_all add: answering_def demo_env_def)


subsection \<open>Decimal digits\<close>


subsection \<open>Response handling\<close>




subsection \<open>What a request does to the stored state\<close>

lemma handleResponse_world:
  "snd (handleResponse e r w) =
     (if status r = 401
      then w\<lparr>storage := ((storage w)(''access_token'' := None))(''user'' := None),
             href := ''/login''\<rparr>
      else w)"
  by (simp add: handleResponse_def Let_def split: option.splits sum.splits)

lemma send_storage:
  "storage (snd (send e req w)) = storage w \<or>
   storage (snd (send e req w)) = ((storage w)(''access_token'' := None))(''user'' := None)"
  by (simp add: send_def Let_def handleResponse_world split: fetch_result.splits)

lemma send_requests: "requests (snd (send e req w)) = requests w @ [req]"
  by (simp add: send_def Let_def handleResponse_world split: fetch_result.splits)


lemma send_world:
  "snd (send e req w) =
     (if answered_401 e req
      then w\<lparr>requests := requests w @ [req],
             storage := ((storage w)(''access_token'' := None))(''user'' := None),
             href := ''/login''\<rparr>
      else w\<lparr>requests := requests w @ [req]\<rparr>)"
  by (simp add: send_def Let_def answered_401_def handleResponse_world split: fetch_result.splits)

lemma login_cases:
  "api_login e u p w = (r, w1) \<Longrightarrow>
   login e u p w a =
     (case response_token r of
        Some t \<Rightarrow>
          (if setItem_throws e (storage w1) ''user''
                (json_stringify (shortest e) (JObj [(''username'', JStr u), (''token'', t)]))
           then (\<lparr>success = False,
                  message = getErrorMessage (QuotaExceededError (quota_error_text e))\<rparr>,
                 w1, a\<lparr>user := JObj [(''username'', JStr u), (''token'', t)]\<rparr>)
           else if setItem_throws e
                ((storage w1)(''user'' \<mapsto>
                   json_stringify (shortest e) (JObj [(''username'', JStr u), (''token'', t)])))
                ''token'' (to_string (shortest e) t)
           then (\<lparr>success = False,
                  message = getErrorMessage (QuotaExceededError (quota_error_text e))\<rparr>,
                 w1\<lparr>storage := (storage w1)(''user'' \<mapsto>
                   json_stringify (shortest e) (JObj [(''username'', JStr u), (''token'', t)]))\<rparr>,
                 a\<lparr>user := JObj [(''username'', JStr u), (''token'', t)]\<rparr>)
           else (\<lparr>success = True, message = ''Login successful''\<rparr>,
                 w1\<lparr>storage := ((storage w1)
                   (''user'' \<mapsto>
                      json_stringify (shortest e) (JObj [(''username'', JStr u), (''token'', t)])))
                   (''token'' \<mapsto> to_string (shortest e) t)\<rparr>,
                 a\<lparr>user := JObj [(''username'', JStr u), (''token'', t)]\<rparr>))
      | None \<Rightarrow>
          (\<lparr>success = False,
            message = (case r of Inl err \<Rightarrow> getErrorMessage err
                       | Inr JNull \<Rightarrow> getErrorMessage (TypeError (type_error_text e))
                       | Inr _ \<Rightarrow> ''Invalid credentials'')\<rparr>, w1, a))"
  apply (cases r)
   apply (simp add: login_def)
  subgoal for v
    by (cases v) (simp_all add: login_def Let_def split: option.splits)
  done


subsection \<open>Login\<close>

text \<open>The user record of \<open>testuser\<close> as \<open>JSON.stringify\<close> writes it.\<close>

lemma quote_username: "quote ''username'' = CHR 0x22 # ''username'' @ [CHR 0x22]"
  by (simp add: quote_def escape_char_def)

lemma quote_testuser: "quote ''testuser'' = CHR 0x22 # ''testuser'' @ [CHR 0x22]"
  by (simp add: quote_def escape_char_def)

lemma quote_token: "quote ''token'' = CHR 0x22 # ''token'' @ [CHR 0x22]"
  by (simp add: quote_def escape_char_def)

lemma quote_abc: "quote ''abc'' = CHR 0x22 # ''abc'' @ [CHR 0x22]"
  by (simp add: quote_def escape_char_def)

lemma user_doc_text:
  "json_stringify sh user_doc =
     ''{'' @ [CHR 0x22] @ ''username'' @ [CHR 0x22] @ '':'' @ [CHR 0x22] @ ''testuser'' @ [CHR 0x22] @
     '','' @ [CHR 0x22] @ ''token'' @ [CHR 0x22] @ '':'' @ [CHR 0x22] @ ''abc'' @ [CHR 0x22] @ ''}''"
  by (simp add: user_doc_def quote_username quote_testuser quote_token quote_abc)


lemma api_login_answer:
  "api_login (answering r) u p w =
     handleResponse (answering r) r
       (w\<lparr>requests := requests w @ [login_request (answering r) u p]\<rparr>)"
  by (simp add: api_login_def send_def answering_fields)


lemma after_login_eq:
  "after_login =
     (fresh_page Map.empty)
       \<lparr>requests := [login_request
           (answering \<lparr>status = 200, body = Some (JObj [(''access_token'', JStr ''abc'')])\<rparr>)
           ''testuser'' ''test123''],
        storage := [''user'' \<mapsto> json_stringify (\<lambda>x. []) user_doc, ''token'' \<mapsto> ''abc'']\<rparr>"
  by (simp add: after_login_def login_def api_login_answer handleResponse_def ok_def
      answering_fields user_doc_def fresh_page_def)

lemma after_login_storage:
  "storage after_login ''user'' = Some (json_stringify (\<lambda>x. []) user_doc)"
  "storage after_login ''token'' = Some ''abc''"
  "storage after_login ''access_token'' = None"
  "href after_login = ''/''"
  "toastId after_login = 0"
  by (simp_all add: after_login_eq fresh_page_def)




subsection \<open>Session expiry\<close>

text \<open>
  C2. After \<open>testuser\<close> has logged in, a request answered 401 fails with the session
  expiry error, navigates to \<open>/login\<close>, removes \<open>user\<close> and leaves the HTTP client
  unauthenticated; but the credential the login persisted under \<open>token\<close> is still stored,
  so not all persisted session data is cleared.
\<close>

theorem session_expiry_leaves_token:
  "fst (getSweets (answering \<lparr>status = 401, body = None\<rparr>) after_login)
     = Inl (Error ''Session expired. Please login again.'') \<and>
   href (snd (getSweets (answering \<lparr>status = 401, body = None\<rparr>) after_login)) = ''/login'' \<and>
   \<not> isAuthenticated (snd (getSweets (answering \<lparr>status = 401, body = None\<rparr>) after_login)) \<and>
   storage (snd (getSweets (answering \<lparr>status = 401, body = None\<rparr>) after_login)) ''user'' = None \<and>
   storage (snd (getSweets (answering \<lparr>status = 401, body = None\<rparr>) after_login)) ''token''
     = Some ''abc''"
  by (simp add: getSweets_def send_def answering_def demo_env_def handleResponse_def
      isAuthenticated_def after_login_def login_def api_login_def ok_def fresh_page_def)


subsection \<open>The two storage keys\<close>

lemma login_access_token:
  "login e u p w a = (res, w', a') \<Longrightarrow>
   storage w' ''access_token'' = storage w ''access_token'' \<or> storage w' ''access_token'' = None"
proof -
  assume l: "login e u p w a = (res, w', a')"
  obtain r w1 where r: "api_login e u p w = (r, w1)" by (cases "api_login e u p w")
  have "storage (snd (api_login e u p w)) = storage w \<or>
        storage (snd (api_login e u p w)) = ((storage w)(''access_token'' := None))(''user'' := None)"
    unfolding api_login_def by (rule send_storage)
  with r have st: "storage w1 ''access_token'' = storage w ''access_token'' \<or>
        storage w1 ''access_token'' = None" by auto
  from login_cases [OF r, of a] l st show ?thesis
    by (cases "response_token r") (auto split: if_splits)
qed

lemma login_success_token:
  "login e u p w a = (res, w', a') \<Longrightarrow> success res \<Longrightarrow> storage w' ''token'' \<noteq> None"
proof -
  assume l: "login e u p w a = (res, w', a')" and s: "success res"
  obtain r w1 where r: "api_login e u p w = (r, w1)" by (cases "api_login e u p w")
  from login_cases [OF r, of a] l s show ?thesis
    by (cases "response_token r") (auto split: if_splits)
qed

lemma getAuthHeaders_anonymous:
  "\<not> isAuthenticated w \<Longrightarrow> getAuthHeaders w = [(''Content-Type'', ''application/json'')]"
  by (cases "storage w ''access_token''") (simp_all add: isAuthenticated_def getAuthHeaders_def)

text \<open>No operation writes \<open>access_token\<close>: in every run from empty storage the HTTP
  client stays unauthenticated.\<close>

lemma toast_step_storage: "storage (toast_step w ev) = storage w"
  by (cases ev)
     (simp_all add: showToast_def click_toast_def elapse_def run_timeout_def Let_def mount_toast_def
        unmount_toast_def)

lemma app_step_access_token:
  "storage (fst s) ''access_token'' = None \<Longrightarrow>
   storage (fst (app_step s ev)) ''access_token'' = None"
proof (cases s)
  case (Pair w a)
  assume n: "storage (fst s) ''access_token'' = None"
  show ?thesis
  proof (cases ev)
    case (LoginEv e u p)
    obtain res w' a' where l: "login e u p w a = (res, w', a')" by (cases "login e u p w a")
    from login_access_token [OF l] n Pair show ?thesis by (auto simp: LoginEv l)
  next
    case LogoutEv
    with n Pair show ?thesis by (simp add: logout_def showSuccess_def showToast_def)
  next
    case (CallEv e req)
    from send_storage [of e req w] n Pair show ?thesis by (auto simp: CallEv)
  next
    case (ToastEv t)
    with n Pair show ?thesis by (simp add: toast_step_storage)
  qed
qed

lemma app_run_access_token:
  "storage (fst s) ''access_token'' = None \<Longrightarrow>
   storage (fst (app_run s evs)) ''access_token'' = None"
  unfolding app_run_def
  by (induction evs arbitrary: s) (simp_all add: app_step_access_token)

lemma client_never_authenticated:
  "\<not> isAuthenticated (fst (app_run (fresh_page Map.empty, initial_auth) evs))"
proof -
  have "storage (fst (fresh_page Map.empty, initial_auth)) ''access_token'' = None"
    by (simp add: fresh_page_def)
  from app_run_access_token [OF this, of evs] show ?thesis
    by (simp add: isAuthenticated_def)
qed

text \<open>
  C4. \<open>login\<close> persists the credential under \<open>token\<close> and never writes \<open>access_token\<close>,
  the only key the HTTP client reads. So after a successful login on a page whose client
  was not authenticated (as it is throughout every run, by the lemma above), the client
  is still not authenticated and the requests it builds carry the content type only, no
  \<open>Authorization\<close> header. Conversely the 401 handler removes \<open>access_token\<close> and \<open>user\<close>
  and changes no other entry, \<open>token\<close> included.
\<close>

theorem login_token_unseen_by_client:
  assumes l: "login e u p w a = (res, w', a')" and s: "success res"
    and n: "\<not> isAuthenticated w"
  shows "storage w' ''token'' \<noteq> None \<and> \<not> isAuthenticated w' \<and>
     getAuthHeaders w' = [(''Content-Type'', ''application/json'')] \<and>
     headers (last (requests (snd (getSweets e2 w'))))
       = [(''Content-Type'', ''application/json'')] \<and>
     headers (last (requests (snd (purchaseSweet e2 i d w'))))
       = [(''Content-Type'', ''application/json'')] \<and>
     (\<forall>r w2 k. status r = 401 \<longrightarrow>
        storage (snd (handleResponse e2 r w2)) k
          = (if k = ''access_token'' \<or> k = ''user'' then None else storage w2 k))"
proof -
  from login_access_token [OF l] n have a: "\<not> isAuthenticated w'"
    by (auto simp: isAuthenticated_def)
  then have h: "getAuthHeaders w' = [(''Content-Type'', ''application/json'')]"
    by (rule getAuthHeaders_anonymous)
  have g: "headers (last (requests (snd (getSweets e2 w'))))
       = [(''Content-Type'', ''application/json'')]"
    by (simp add: getSweets_def send_requests h)
  have b: "headers (last (requests (snd (purchaseSweet e2 i d w'))))
       = [(''Content-Type'', ''application/json'')]"
    by (simp add: purchaseSweet_def send_requests h)
  have c: "\<forall>r w2 k. status r = 401 \<longrightarrow>
        storage (snd (handleResponse e2 r w2)) k
          = (if k = ''access_token'' \<or> k = ''user'' then None else storage w2 k)"
    by (simp add: handleResponse_world)
  from login_success_token [OF l s] a h g b c show ?thesis by blast
qed

theorem login_token_unseen_by_client_witness:
  "storage after_login ''token'' = Some ''abc'' \<and> \<not> isAuthenticated after_login \<and>
   getAuthHeaders after_login = [(''Content-Type'', ''application/json'')] \<and>
   headers (last (requests (snd (purchaseSweet demo_env 5 (JObj [(''quantity'', JNum (Fin 3))])
      after_login)))) = [(''Content-Type'', ''application/json'')] \<and>
   storage (snd (handleResponse demo_env \<lparr>status = 401, body = None\<rparr> after_login)) ''token''
     = Some ''abc''"
proof -
  let ?e = "answering \<lparr>status = 200, body = Some (JObj [(''access_token'', JStr ''abc'')])\<rparr>"
  let ?l = "login ?e ''testuser'' ''test123'' (fresh_page Map.empty) initial_auth"
  have l: "?l = (fst ?l, after_login, snd (snd ?l))" by (simp add: after_login_def)
  have s: "success (fst ?l)"
    by (simp add: login_def api_login_answer handleResponse_def ok_def Let_def answering_fields)
  have n: "\<not> isAuthenticated (fresh_page Map.empty)"
    by (simp add: isAuthenticated_def fresh_page_def)
  have t: "storage after_login ''token'' = Some ''abc''"
    by (simp add: after_login_storage)
  from login_token_unseen_by_client [OF l s n, of demo_env 5 "JObj [(''quantity'', JNum (Fin 3))]"] t
  show ?thesis by simp
qed

subsection \<open>Two fractional digits\<close>

lemma digit_char: "d < 10 \<Longrightarrow> is_digit (''0123456789'' ! d)"
proof -
  assume "d < 10"
  then have "d \<in> {0, 1, 2, 3, 4, 5, 6, 7, 8, 9}" by auto
  then show ?thesis by (auto simp: is_digit_def)
qed

lemma show_nat_digits: "list_all is_digit (show_nat n) \<and> show_nat n \<noteq> []"
proof (induction n rule: show_nat.induct)
  case (1 n)
  show ?case
  proof (cases "n < 10")
    case True
    then show ?thesis by (subst (1 2) show_nat.simps) (simp add: digit_char)
  next
    case False
    with 1 have "list_all is_digit (show_nat (n div 10))" by simp
    moreover have "is_digit (''0123456789'' ! (n mod 10))" by (rule digit_char) simp
    ultimately show ?thesis using False by (subst (1 2) show_nat.simps) simp
  qed
qed

lemma fixed_digits_shape:
  "two_decimals (fixed_digits 2 x) \<and> hd (fixed_digits 2 x) \<noteq> CHR ''-'' \<and> fixed_digits 2 x \<noteq> []"
proof -
  define m where "m = show_nat (nat \<lfloor>x * 10 ^ 2 + 1 / 2\<rfloor>)"
  define m' where "m' = (if length m \<le> 2 then replicate (2 + 1 - length m) (CHR ''0'') @ m else m)"
  have md: "list_all is_digit m" and mn: "m \<noteq> []" using show_nat_digits by (simp_all add: m_def)
  have z: "is_digit (CHR ''0'')" by (simp add: is_digit_def)
  have d: "list_all is_digit m'" using md z by (simp add: m'_def list_all_iff)
  have l: "3 \<le> length m'" by (simp add: m'_def)
  have f: "fixed_digits 2 x = take (length m' - 2) m' @ ''.'' @ drop (length m' - 2) m'"
    by (simp add: fixed_digits_def m_def m'_def Let_def)
  have t: "take (length m' - 2) m' \<noteq> []" using l by auto
  have hdm: "hd (fixed_digits 2 x) = hd m'" using t f l by (simp add: hd_append hd_take)
  have "is_digit (hd m')" using d l by (cases m') auto
  then have h: "hd (fixed_digits 2 x) \<noteq> CHR ''-''" using hdm by (auto simp: is_digit_def)
  have u: "unsigned (fixed_digits 2 x) = fixed_digits 2 x" using h by (simp add: unsigned_def)
  have n: "length (fixed_digits 2 x) = length m' + 1" using l by (simp add: f)
  have a: "take (length m' + 1 - 3) (fixed_digits 2 x) = take (length m' - 2) m'"
    using l by (simp add: f)
  have b: "drop (length m' + 1 - 2) (fixed_digits 2 x) = drop (length m' - 2) m'"
    using l by (simp add: f)
  have c: "fixed_digits 2 x ! (length m' + 1 - 3) = CHR ''.''"
    using l by (simp add: f nth_append)
  have da: "list_all is_digit (take (length m' - 2) m')" using d
    by (auto simp: list_all_iff dest: in_set_takeD)
  have db: "list_all is_digit (drop (length m' - 2) m')" using d
    by (auto simp: list_all_iff dest: in_set_dropD)
  have "two_decimals (fixed_digits 2 x)"
    unfolding two_decimals_def u Let_def n a b c using l da db by simp
  with h f t show ?thesis by simp
qed

lemma toFixed_two_decimals: "\<bar>x\<bar> < 10 ^ 21 \<Longrightarrow> two_decimals (toFixed sh 2 (Fin x))"
proof -
  assume x: "\<bar>x\<bar> < 10 ^ 21"
  have s: "two_decimals (fixed_digits 2 \<bar>x\<bar>)" and h: "hd (fixed_digits 2 \<bar>x\<bar>) \<noteq> CHR ''-''"
    and n: "fixed_digits 2 \<bar>x\<bar> \<noteq> []"
    using fixed_digits_shape by simp_all
  have "unsigned (''-'' @ fixed_digits 2 \<bar>x\<bar>) = unsigned (fixed_digits 2 \<bar>x\<bar>)"
    using h by (simp add: unsigned_def)
  then have m: "two_decimals (''-'' @ fixed_digits 2 \<bar>x\<bar>)"
    using s by (simp add: two_decimals_def)
  have "toFixed sh 2 (Fin x) = (if x < 0 then ''-'' else []) @ fixed_digits 2 \<bar>x\<bar>"
    using x by (simp only: toFixed_def jsnum.case if_True)
  then show ?thesis using s m by (cases "x < 0") (simp_all del: abs_if)
qed

lemma show_nat_750: "show_nat 750 = ''750''"
  by (simp add: show_nat.simps)

lemma toFixed_7_5: "toFixed sh 2 (Fin (15 / 2)) = ''7.50''"
  by (simp add: toFixed_def fixed_digits_def show_nat_750)


subsection \<open>The purchase flow\<close>

lemma send_keeps_toasts:
  "toastId (snd (send e req w)) = toastId w \<and>
   toastListeners (snd (send e req w)) = toastListeners w \<and>
   now (snd (send e req w)) = now w"
  by (simp add: send_def Let_def handleResponse_world split: fetch_result.splits)

text \<open>
  C1. If the pending quantity is \<open>\<le> 0\<close> or exceeds the product's available quantity,
  \<open>handlePurchase\<close> issues no request (the list of \<open>fetch\<close> calls is unchanged), publishes
  exactly one toast, of type \<open>error\<close> with the message \<open>Invalid quantity selected\<close>
  (\<open>toastId\<close> advances by one and every mounted \<open>Toast\<close> receives that one toast), and
  leaves the card as it was: selector state and pending quantity unchanged, no refresh.
\<close>

theorem invalid_quantity_rejected:
  assumes "js_le (purchaseQuantity c) (Fin 0) \<or> js_gt (purchaseQuantity c) (quantity sw)"
  shows "case handlePurchase e sw onUpdate w c of
     (w', c', n) \<Rightarrow>
       requests w' = requests w \<and> storage w' = storage w \<and> c' = c \<and> n = 0 \<and>
       toastId w' = toastId w + 1 \<and>
       toastListeners w' =
         map (\<lambda>v. v\<lparr>toasts := toasts v @
                      [\<lparr>tid = toastId w + 1, tmessage = ''Invalid quantity selected'',
                        ttype = ''error'', timestamp = now w\<rparr>],
                    timers := timers v @ [(now w + 4000, toastId w + 1)]\<rparr>)
             (toastListeners w)"
  using assms by (simp add: handlePurchase_def showError_def showToast_def listener_def)

text \<open>The scenario: 3 of product 5 requested, 2 available.\<close>

theorem invalid_quantity_rejected_witness:
  "case handlePurchase demo_env (sweet5 (Fin 2)) True one_toast_page (selecting (Fin 3)) of
     (w', c', n) \<Rightarrow>
       requests w' = [] \<and> c' = selecting (Fin 3) \<and> n = 0 \<and> toastId w' = 1 \<and>
       toastListeners w' =
         [\<lparr>toasts = [\<lparr>tid = 1, tmessage = ''Invalid quantity selected'', ttype = ''error'',
                       timestamp = 0\<rparr>],
           timers = [(4000, 1)]\<rparr>]"
proof -
  have g: "js_le (purchaseQuantity (selecting (Fin 3))) (Fin 0) \<or>
           js_gt (purchaseQuantity (selecting (Fin 3))) (quantity (sweet5 (Fin 2)))"
    by (simp add: selecting_def sweet5_def js_gt_def)
  have p: "toastId one_toast_page = 0 \<and> now one_toast_page = 0 \<and>
           toastListeners one_toast_page = [\<lparr>toasts = [], timers = []\<rparr>] \<and>
           requests one_toast_page = []"
    by (simp add: one_toast_page_def mount_toast_def fresh_page_def)
  from invalid_quantity_rejected
    [OF g, where e = demo_env and onUpdate = True and w = one_toast_page] p
  show ?thesis
    by (cases "handlePurchase demo_env (sweet5 (Fin 2)) True one_toast_page (selecting (Fin 3))")
       simp
qed


lemma purchaseSweet_resolved:
  assumes "purchaseSweet e i d w = (Inr v, w1)"
  shows "toastId w1 = toastId w \<and> toastListeners w1 = toastListeners w \<and> now w1 = now w \<and>
         length (requests w1) = length (requests w) + 1"
proof -
  from assms have "w1 = snd (purchaseSweet e i d w)" by simp
  then show ?thesis
    unfolding purchaseSweet_def by (simp add: send_keeps_toasts send_requests)
qed

text \<open>
  C5 (as amended). If the quantity guard passes and the purchase call resolves to an
  object whose \<open>total_cost\<close> is a finite number below \<open>10^21\<close> in magnitude, then exactly one
  request was issued, the card is idle (selector hidden, not loading) with the pending
  quantity reset to 1, exactly one toast is published, of type \<open>success\<close>, whose message
  is \<open>Purchased <quantity> <name>(s) for <total>\<close> with the total rendered with exactly two
  fractional digits, and \<open>onUpdate\<close> is called once when the owner passed it (not at all
  otherwise).
\<close>

theorem purchase_success:
  assumes g: "\<not> (js_le (purchaseQuantity c) (Fin 0) \<or> js_gt (purchaseQuantity c) (quantity sw))"
    and p: "purchaseSweet e (sweet_id sw) (JObj [(''quantity'', JNum (purchaseQuantity c))]) w
              = (Inr (JObj kvs), w1)"
    and t: "map_of kvs ''total_cost'' = Some (JNum (Fin x))"
    and x: "\<bar>x\<bar> < 10 ^ 21"
  shows "case handlePurchase e sw onUpdate w c of
     (w', c', n) \<Rightarrow>
       showQuantitySelector c' = False \<and> isLoading c' = False \<and> purchaseQuantity c' = Fin 1 \<and>
       n = (if onUpdate then 1 else 0) \<and>
       length (requests w') = length (requests w) + 1 \<and>
       toastId w' = toastId w + 1 \<and>
       toastListeners w' =
         map (\<lambda>v. v\<lparr>toasts := toasts v @
                      [\<lparr>tid = toastId w + 1,
                        tmessage = ''Purchased '' @
                          num_to_string (shortest e) (purchaseQuantity c) @ '' '' @ name sw @
                          ''(s) for '' @ toFixed (shortest e) 2 (Fin x),
                        ttype = ''success'', timestamp = now w\<rparr>],
                    timers := timers v @ [(now w + 4000, toastId w + 1)]\<rparr>)
             (toastListeners w) \<and>
       two_decimals (toFixed (shortest e) 2 (Fin x))"
  using g p t purchaseSweet_resolved [OF p] toFixed_two_decimals [OF x]
  by (simp add: handlePurchase_def showSuccess_def showToast_def listener_def)


lemma show_nat_3: "show_nat 3 = ''3''"
  by (simp add: show_nat.simps)

lemma three_text: "num_to_string sh (Fin 3) = ''3''"
  by (simp add: num_to_string_def show_nat_3)

lemma purchaseSweet_answer:
  "purchaseSweet (answering r) i d w =
     handleResponse (answering r) r
       (w\<lparr>requests := requests w @
           [\<lparr>req_method = ''POST'',
             url = ''http://localhost:8000/api/sweets/'' @ show_nat i @ ''/purchase'',
             headers = getAuthHeaders w,
             payload = JsonBody (json_stringify (\<lambda>x. []) d)\<rparr>]\<rparr>)"
  by (simp add: purchaseSweet_def send_def answering_def demo_env_def)

text \<open>The scenario: a total cost of 7.5 appears as \<open>7.50\<close>.\<close>

theorem purchase_success_witness:
  "case handlePurchase
          (answering \<lparr>status = 200, body = Some (JObj [(''total_cost'', JNum (Fin (15 / 2)))])\<rparr>)
          (sweet5 (Fin 10)) True one_toast_page (selecting (Fin 3)) of
     (w', c', n) \<Rightarrow>
       showQuantitySelector c' = False \<and> isLoading c' = False \<and> purchaseQuantity c' = Fin 1 \<and>
       n = 1 \<and> length (requests w') = 1 \<and> toastId w' = 1 \<and>
       toastListeners w' =
         [\<lparr>toasts = [\<lparr>tid = 1, tmessage = ''Purchased 3 Ladoo(s) for 7.50'',
                       ttype = ''success'', timestamp = 0\<rparr>],
           timers = [(4000, 1)]\<rparr>]"
proof -
  let ?e = "answering \<lparr>status = 200, body = Some (JObj [(''total_cost'', JNum (Fin (15 / 2)))])\<rparr>"
  let ?p = "purchaseSweet ?e (sweet_id (sweet5 (Fin 10)))
              (JObj [(''quantity'', JNum (purchaseQuantity (selecting (Fin 3))))]) one_toast_page"
  have g: "\<not> (js_le (purchaseQuantity (selecting (Fin 3))) (Fin 0) \<or>
              js_gt (purchaseQuantity (selecting (Fin 3))) (quantity (sweet5 (Fin 10))))"
    by (simp add: selecting_def sweet5_def js_gt_def js_le_def)
  have p: "?p = (Inr (JObj [(''total_cost'', JNum (Fin (15 / 2)))]), snd ?p)"
    by (simp add: purchaseSweet_answer handleResponse_def ok_def)
  have t: "map_of [(''total_cost'', JNum (Fin (15 / 2)))] ''total_cost'' = Some (JNum (Fin (15 / 2)))"
    by simp
  have x: "\<bar>15 / 2 :: real\<bar> < 10 ^ 21" by simp
  have q: "toastId one_toast_page = 0 \<and> now one_toast_page = 0 \<and>
           toastListeners one_toast_page = [\<lparr>toasts = [], timers = []\<rparr>] \<and>
           requests one_toast_page = []"
    by (simp add: one_toast_page_def mount_toast_def fresh_page_def)
  have s: "shortest ?e = (\<lambda>x. [])" by (simp add: answering_def demo_env_def)
  have m: "purchaseQuantity (selecting (Fin 3)) = Fin 3 \<and> name (sweet5 (Fin 10)) = ''Ladoo''"
    by (simp add: selecting_def sweet5_def)
  from purchase_success [OF g p t x, where onUpdate = True] q s m
  show ?thesis
    by (cases "handlePurchase ?e (sweet5 (Fin 10)) True one_toast_page (selecting (Fin 3))")
       (simp add: three_text toFixed_7_5)
qed

text \<open>
  The sentence of the specification fails for a call that resolves without a numeric
  \<open>total_cost\<close> (a 204 answer resolves to \<open>null\<close>: an error toast, the card still
  selecting 3, no refresh), for a card without \<open>onUpdate\<close> (no refresh signal), and for
  a total that is not finite (no fractional digits).
\<close>

theorem purchase_success_counterexample:
  "(case handlePurchase (answering \<lparr>status = 204, body = None\<rparr>)
          (sweet5 (Fin 10)) True one_toast_page (selecting (Fin 3)) of
      (w', c', n) \<Rightarrow>
        length (requests w') = 1 \<and> showQuantitySelector c' \<and> purchaseQuantity c' = Fin 3 \<and>
        n = 0 \<and> map (map ttype \<circ> toasts) (toastListeners w') = [[''error'']]) \<and>
   (case handlePurchase
          (answering \<lparr>status = 200, body = Some (JObj [(''total_cost'', JNum (Fin (15 / 2)))])\<rparr>)
          (sweet5 (Fin 10)) False one_toast_page (selecting (Fin 3)) of
      (w', c', n) \<Rightarrow> n = 0) \<and>
   (case handlePurchase
          (answering \<lparr>status = 200, body = Some (JObj [(''total_cost'', JNum PosInf)])\<rparr>)
          (sweet5 (Fin 10)) True one_toast_page (selecting (Fin 3)) of
      (w', c', n) \<Rightarrow>
        map (map tmessage \<circ> toasts) (toastListeners w')
          = [[''Purchased 3 Ladoo(s) for Infinity'']])"
  by (simp add: handlePurchase_def purchaseSweet_answer handleResponse_def ok_def
      js_le_def js_gt_def selecting_def sweet5_def one_toast_page_def mount_toast_def
      fresh_page_def showError_def showSuccess_def showToast_def listener_def
      getErrorMessage_def answering_fields show_nat_3 toFixed_def num_to_string_def)

subsection \<open>Rehydration and logout\<close>

lemma rehydrate_partial:
  "\<not> truthy_item (storage w ''user'') \<or> \<not> truthy_item (storage w ''token'') \<Longrightarrow>
   rehydrate e w = Inr anonymous"
  by (auto simp: rehydrate_def mount_effect_def initial_auth_def anonymous_def)

lemma rehydrate_both:
  "storage w ''user'' = Some s \<Longrightarrow> s \<noteq> [] \<Longrightarrow> truthy_item (storage w ''token'') \<Longrightarrow>
   rehydrate e w =
     (case json_parse e s of
        None \<Rightarrow> Inl (SyntaxError (syntax_error_text e))
      | Some v \<Rightarrow> Inr \<lparr>user = v, loading = False\<rparr>)"
  by (simp add: rehydrate_def mount_effect_def initial_auth_def split: option.splits)

lemma not_authenticated_anonymous: "\<not> authenticated anonymous"
  by (simp add: authenticated_def anonymous_def)

text \<open>
  C6 (as amended). For every storage whose user entry, when present and non-empty, is
  a well-formed JSON object (as \<open>login\<close> writes it), startup completes with \<open>loading\<close>
  false, and the context is authenticated if and only if both the user entry and the
  token entry are present and non-empty; the session is then the parsed user record. Any
  partial state (token without identity, or identity without token) gives the state
  without a session.
\<close>

theorem rehydrate_session:
  assumes "\<forall>s. storage w ''user'' = Some s \<longrightarrow> s \<noteq> [] \<longrightarrow>
             (\<exists>kvs. json_parse e s = Some (JObj kvs))"
  shows "\<exists>a. rehydrate e w = Inr a \<and> loading a = False \<and>
           (authenticated a \<longleftrightarrow>
              truthy_item (storage w ''user'') \<and> truthy_item (storage w ''token'')) \<and>
           (\<not> authenticated a \<longrightarrow> a = anonymous) \<and>
           (\<forall>s. authenticated a \<longrightarrow> storage w ''user'' = Some s \<longrightarrow>
                json_parse e s = Some (user a))"
proof (cases "truthy_item (storage w ''user'') \<and> truthy_item (storage w ''token'')")
  case True
  then obtain s where s: "storage w ''user'' = Some s" "s \<noteq> []"
    by (cases "storage w ''user''") auto
  with assms obtain kvs where k: "json_parse e s = Some (JObj kvs)" by blast
  from True s k have "rehydrate e w = Inr \<lparr>user = JObj kvs, loading = False\<rparr>"
    by (simp add: rehydrate_both)
  with True s k show ?thesis by (simp add: authenticated_def)
next
  case False
  then have "rehydrate e w = Inr anonymous" by (auto intro: rehydrate_partial)
  moreover have "loading anonymous = False" by (simp add: anonymous_def)
  ultimately show ?thesis using False not_authenticated_anonymous by auto
qed

lemma demo_parse_user_doc: "demo_parse (json_stringify (\<lambda>x. []) user_doc) = Some user_doc"
  by (simp add: demo_parse_def)

lemma user_doc_nonempty: "json_stringify sh user_doc \<noteq> []"
  by (simp add: user_doc_def)

text \<open>Both entries as \<open>login\<close> left them; a token alone; a user record alone.\<close>

theorem rehydrate_session_witness:
  "rehydrate demo_env after_login = Inr \<lparr>user = user_doc, loading = False\<rparr> \<and>
   authenticated \<lparr>user = user_doc, loading = False\<rparr> \<and>
   rehydrate demo_env (stored [(''token'', ''abc'')]) = Inr anonymous \<and>
   rehydrate demo_env (stored [(''user'', json_stringify (\<lambda>x. []) user_doc)]) = Inr anonymous"
proof -
  have j: "json_parse demo_env = demo_parse" by (simp add: demo_env_def)
  have a: "\<forall>s. storage after_login ''user'' = Some s \<longrightarrow> s \<noteq> [] \<longrightarrow>
             (\<exists>kvs. json_parse demo_env s = Some (JObj kvs))"
    by (simp add: after_login_storage j demo_parse_user_doc) (simp add: user_doc_def)
  have b: "\<forall>s. storage (stored [(''token'', ''abc'')]) ''user'' = Some s \<longrightarrow> s \<noteq> [] \<longrightarrow>
             (\<exists>kvs. json_parse demo_env s = Some (JObj kvs))"
    by (simp add: stored_def fresh_page_def)
  have c: "\<forall>s. storage (stored [(''user'', json_stringify (\<lambda>x. []) user_doc)]) ''user'' = Some s
             \<longrightarrow> s \<noteq> [] \<longrightarrow> (\<exists>kvs. json_parse demo_env s = Some (JObj kvs))"
    by (simp add: stored_def fresh_page_def j demo_parse_user_doc) (simp add: user_doc_def)
  have t: "truthy_item (storage after_login ''user'') \<and> truthy_item (storage after_login ''token'')"
    by (simp add: after_login_storage user_doc_nonempty)
  have u: "\<not> truthy_item (storage (stored [(''token'', ''abc'')]) ''user'')"
    by (simp add: stored_def fresh_page_def)
  have v: "\<not> truthy_item (storage (stored [(''user'', json_stringify (\<lambda>x. []) user_doc)]) ''token'')"
    by (simp add: stored_def fresh_page_def)
  from rehydrate_session [OF a] t obtain x where
    x: "rehydrate demo_env after_login = Inr x" "loading x = False" "authenticated x"
       "json_parse demo_env (json_stringify (\<lambda>x. []) user_doc) = Some (user x)"
    by (auto simp: after_login_storage)
  then have "user x = user_doc" by (simp add: j demo_parse_user_doc)
  with x have first: "rehydrate demo_env after_login = Inr \<lparr>user = user_doc, loading = False\<rparr>"
    and "authenticated \<lparr>user = user_doc, loading = False\<rparr>"
    by (cases x; simp add: authenticated_def)+
  moreover from rehydrate_session [OF b] u
  have "rehydrate demo_env (stored [(''token'', ''abc'')]) = Inr anonymous" by auto
  moreover from rehydrate_session [OF c] v
  have "rehydrate demo_env (stored [(''user'', json_stringify (\<lambda>x. []) user_doc)]) = Inr anonymous"
    by auto
  ultimately show ?thesis by simp
qed

text \<open>
  Over every storage the sentence of the specification fails: with both entries present
  and a non-empty token, a user entry that is not JSON makes startup throw, and an empty
  user entry gives no session.
\<close>

theorem rehydrate_session_counterexample:
  "storage (stored [(''user'', ''{oops''), (''token'', ''abc'')]) ''user'' \<noteq> None \<and>
   truthy_item (storage (stored [(''user'', ''{oops''), (''token'', ''abc'')]) ''token'') \<and>
   rehydrate demo_env (stored [(''user'', ''{oops''), (''token'', ''abc'')])
     = Inl (SyntaxError ''Unexpected end of JSON input'') \<and>
   storage (stored [(''user'', []), (''token'', ''abc'')]) ''user'' \<noteq> None \<and>
   truthy_item (storage (stored [(''user'', []), (''token'', ''abc'')]) ''token'') \<and>
   rehydrate demo_env (stored [(''user'', []), (''token'', ''abc'')]) = Inr anonymous"
  by (simp add: stored_def fresh_page_def rehydrate_def mount_effect_def demo_env_def
      demo_parse_def user_doc_def anonymous_def initial_auth_def)


text \<open>
  C10 (as amended). The parse is unguarded. If the user entry is a non-empty string
  that is not JSON, \<open>getStoredUser\<close> throws the \<open>SyntaxError\<close> of \<open>JSON.parse\<close>, and startup
  throws it too when the token entry is non-empty, but gives the state without a session
  when it is not. An empty user entry is read as \<open>null\<close> by \<open>getStoredUser\<close>, an absent
  one too, and an entry that parses is read as its value. Whenever the user entry or the
  token entry is absent or empty, startup gives the state without a session, whatever
  the user entry holds. So \<open>getStoredUser\<close> throws exactly when the user entry is
  non-empty and not JSON, and startup exactly when, in addition, the token entry is
  non-empty.
\<close>

theorem unguarded_parse:
  "(storage w ''user'' = Some s \<and> s \<noteq> [] \<and> json_parse e s = None \<longrightarrow>
      getStoredUser e w = Inl (SyntaxError (syntax_error_text e)) \<and>
      rehydrate e w =
        (if truthy_item (storage w ''token'') then Inl (SyntaxError (syntax_error_text e))
         else Inr anonymous)) \<and>
   (storage w ''user'' = Some [] \<or> storage w ''user'' = None \<longrightarrow>
      getStoredUser e w = Inr JNull) \<and>
   (storage w ''user'' = Some s \<and> s \<noteq> [] \<and> json_parse e s = Some v \<longrightarrow>
      getStoredUser e w = Inr v) \<and>
   (\<not> truthy_item (storage w ''user'') \<or> \<not> truthy_item (storage w ''token'') \<longrightarrow>
      rehydrate e w = Inr anonymous) \<and>
   isl (rehydrate e w) =
     (case storage w ''user'' of
        None \<Rightarrow> False
      | Some s \<Rightarrow> s \<noteq> [] \<and> truthy_item (storage w ''token'') \<and> json_parse e s = None) \<and>
   isl (getStoredUser e w) =
     (case storage w ''user'' of
        None \<Rightarrow> False
      | Some s \<Rightarrow> s \<noteq> [] \<and> json_parse e s = None)"
proof -
  have a: "storage w ''user'' = Some s \<and> s \<noteq> [] \<and> json_parse e s = None \<longrightarrow>
      getStoredUser e w = Inl (SyntaxError (syntax_error_text e)) \<and>
      rehydrate e w =
        (if truthy_item (storage w ''token'') then Inl (SyntaxError (syntax_error_text e))
         else Inr anonymous)"
    by (auto simp: getStoredUser_def rehydrate_both rehydrate_partial)
  have b: "storage w ''user'' = Some [] \<or> storage w ''user'' = None \<longrightarrow>
      getStoredUser e w = Inr JNull"
    by (auto simp: getStoredUser_def)
  have c: "storage w ''user'' = Some s \<and> s \<noteq> [] \<and> json_parse e s = Some v \<longrightarrow>
      getStoredUser e w = Inr v"
    by (auto simp: getStoredUser_def)
  have d: "\<not> truthy_item (storage w ''user'') \<or> \<not> truthy_item (storage w ''token'') \<longrightarrow>
      rehydrate e w = Inr anonymous"
    by (auto intro: rehydrate_partial)
  have g: "isl (getStoredUser e w) =
          (case storage w ''user'' of
             None \<Rightarrow> False
           | Some s \<Rightarrow> s \<noteq> [] \<and> json_parse e s = None)"
    by (simp add: getStoredUser_def split: option.splits)
  have r: "isl (rehydrate e w) =
          (case storage w ''user'' of
             None \<Rightarrow> False
           | Some s \<Rightarrow> s \<noteq> [] \<and> truthy_item (storage w ''token'') \<and> json_parse e s = None)"
  proof (cases "truthy_item (storage w ''user'') \<and> truthy_item (storage w ''token'')")
    case True
    then obtain s where s: "storage w ''user'' = Some s" "s \<noteq> []"
      by (cases "storage w ''user''") auto
    with True show ?thesis by (cases "json_parse e s") (simp_all add: rehydrate_both)
  next
    case False
    then have "rehydrate e w = Inr anonymous" by (auto intro: rehydrate_partial)
    with False show ?thesis by (cases "storage w ''user''") auto
  qed
  from a b c d r g show ?thesis by blast
qed

text \<open>A user entry that is not JSON with and without a token, an empty one, and the
  record that \<open>login\<close> stored.\<close>

theorem unguarded_parse_witness:
  "getStoredUser demo_env (stored [(''user'', ''{oops''), (''token'', ''abc'')])
     = Inl (SyntaxError ''Unexpected end of JSON input'') \<and>
   rehydrate demo_env (stored [(''user'', ''{oops''), (''token'', ''abc'')])
     = Inl (SyntaxError ''Unexpected end of JSON input'') \<and>
   getStoredUser demo_env (stored [(''user'', ''{oops'')])
     = Inl (SyntaxError ''Unexpected end of JSON input'') \<and>
   rehydrate demo_env (stored [(''user'', ''{oops'')]) = Inr anonymous \<and>
   getStoredUser demo_env (stored [(''user'', [])]) = Inr JNull \<and>
   getStoredUser demo_env after_login = Inr user_doc"
proof -
  have p: "json_parse demo_env ''{oops'' = None"
    "json_parse demo_env (json_stringify (\<lambda>x. []) user_doc) = Some user_doc"
    "syntax_error_text demo_env = ''Unexpected end of JSON input''"
    by (simp_all add: demo_env_def demo_parse_def user_doc_def)
  have s: "storage (stored [(''user'', ''{oops''), (''token'', ''abc'')]) ''user'' = Some ''{oops''"
    "truthy_item (storage (stored [(''user'', ''{oops''), (''token'', ''abc'')]) ''token'')"
    "storage (stored [(''user'', ''{oops'')]) ''user'' = Some ''{oops''"
    "\<not> truthy_item (storage (stored [(''user'', ''{oops'')]) ''token'')"
    "storage (stored [(''user'', [])]) ''user'' = Some []"
    by (simp_all add: stored_def fresh_page_def)
  note one = unguarded_parse
    [of "stored [(''user'', ''{oops''), (''token'', ''abc'')]" "''{oops''" demo_env]
  note two = unguarded_parse [of "stored [(''user'', ''{oops'')]" "''{oops''" demo_env]
  note three = unguarded_parse [of "stored [(''user'', [])]" "[]" demo_env]
  note four = unguarded_parse
    [of after_login "json_stringify (\<lambda>x. []) user_doc" demo_env user_doc]
  from one p s
  have a: "getStoredUser demo_env (stored [(''user'', ''{oops''), (''token'', ''abc'')])
             = Inl (SyntaxError ''Unexpected end of JSON input'')"
    and b: "rehydrate demo_env (stored [(''user'', ''{oops''), (''token'', ''abc'')])
             = Inl (SyntaxError ''Unexpected end of JSON input'')"
    by simp_all
  from two p s
  have c: "getStoredUser demo_env (stored [(''user'', ''{oops'')])
             = Inl (SyntaxError ''Unexpected end of JSON input'')"
    and d: "rehydrate demo_env (stored [(''user'', ''{oops'')]) = Inr anonymous"
    by simp_all
  from three s have f: "getStoredUser demo_env (stored [(''user'', [])]) = Inr JNull"
    by simp
  from four p after_login_storage user_doc_nonempty
  have g: "getStoredUser demo_env after_login = Inr user_doc" by simp
  from a b c d f g show ?thesis by simp
qed

text \<open>
  A user entry that is not JSON does not always throw: without a token startup gives
  the state without a session, and \<open>getStoredUser\<close> reads an empty entry as \<open>null\<close>.
\<close>

theorem unguarded_parse_counterexample:
  "storage (stored [(''user'', ''{oops'')]) ''user'' = Some ''{oops'' \<and>
   json_parse demo_env ''{oops'' = None \<and>
   rehydrate demo_env (stored [(''user'', ''{oops'')]) = Inr anonymous \<and>
   storage (stored [(''user'', [])]) ''user'' = Some [] \<and>
   json_parse demo_env [] = None \<and>
   getStoredUser demo_env (stored [(''user'', [])]) = Inr JNull"
  by (simp add: stored_def fresh_page_def rehydrate_def mount_effect_def demo_env_def
      demo_parse_def user_doc_def anonymous_def initial_auth_def getStoredUser_def)

text \<open>
  C7 (as amended). From every state, \<open>logout\<close> clears the in-memory user, removes the
  entries \<open>user\<close> and \<open>token\<close> (and changes nothing else in storage, issues no request,
  does not navigate), and publishes exactly one toast, of type \<open>success\<close>; startup over
  the storage it leaves gives the state without a session, never an authenticated one.
  It leaves storage as it was exactly when neither entry was stored, and the context as
  it was exactly when no user was in memory; when both hold, nothing changes but the
  toast.
\<close>

theorem logout_then_rehydrate:
  assumes "logout w a = (w', a')"
  shows "rehydrate e w' = Inr anonymous \<and> \<not> authenticated anonymous \<and>
     user a' = JNull \<and> \<not> authenticated a' \<and>
     storage w' = ((storage w)(''user'' := None))(''token'' := None) \<and>
     requests w' = requests w \<and> href w' = href w \<and>
     toastId w' = toastId w + 1 \<and>
     toastListeners w' =
       map (\<lambda>v. v\<lparr>toasts := toasts v @
                    [\<lparr>tid = toastId w + 1, tmessage = ''Logged out successfully'',
                      ttype = ''success'', timestamp = now w\<rparr>],
                  timers := timers v @ [(now w + 4000, toastId w + 1)]\<rparr>)
           (toastListeners w) \<and>
     (user a = JNull \<and> storage w ''user'' = None \<and> storage w ''token'' = None \<longrightarrow>
        a' = a \<and> storage w' = storage w) \<and>
     (storage w' = storage w) = (storage w ''user'' = None \<and> storage w ''token'' = None) \<and>
     (a' = a) = (user a = JNull)"
proof -
  from assms have w': "w' = snd (showSuccess
        (w\<lparr>storage := ((storage w)(''user'' := None))(''token'' := None)\<rparr>)
        ''Logged out successfully'')" and a': "a' = a\<lparr>user := JNull\<rparr>"
    by (simp_all add: logout_def)
  have s: "storage w' = ((storage w)(''user'' := None))(''token'' := None)"
    by (simp add: w' showSuccess_def showToast_def)
  then have "\<not> truthy_item (storage w' ''user'')" by simp
  then have r: "rehydrate e w' = Inr anonymous" by (simp add: rehydrate_partial)
  have n: "user a = JNull \<and> storage w ''user'' = None \<and> storage w ''token'' = None \<longrightarrow>
        a' = a \<and> storage w' = storage w"
    by (auto simp: a' s)
  have i: "(storage w' = storage w) = (storage w ''user'' = None \<and> storage w ''token'' = None)"
  proof
    assume "storage w' = storage w"
    with s have "storage w = ((storage w)(''user'' := None))(''token'' := None)" by simp
    then have "storage w ''user'' = (((storage w)(''user'' := None))(''token'' := None)) ''user''"
      and "storage w ''token'' = (((storage w)(''user'' := None))(''token'' := None)) ''token''"
      by simp_all
    then show "storage w ''user'' = None \<and> storage w ''token'' = None" by simp
  next
    assume "storage w ''user'' = None \<and> storage w ''token'' = None"
    then show "storage w' = storage w" by (auto simp: s)
  qed
  have j: "(a' = a) = (user a = JNull)"
  proof
    assume "a' = a"
    then have "user a = user (a\<lparr>user := JNull\<rparr>)" by (simp add: a')
    then show "user a = JNull" by simp
  next
    assume "user a = JNull"
    then show "a' = a" by (simp add: a')
  qed
  have t: "requests w' = requests w \<and> href w' = href w \<and> toastId w' = toastId w + 1 \<and>
     toastListeners w' =
       map (\<lambda>v. v\<lparr>toasts := toasts v @
                    [\<lparr>tid = toastId w + 1, tmessage = ''Logged out successfully'',
                      ttype = ''success'', timestamp = now w\<rparr>],
                  timers := timers v @ [(now w + 4000, toastId w + 1)]\<rparr>)
           (toastListeners w)"
    by (simp add: w' showSuccess_def showToast_def listener_def)
  have u: "user a' = JNull \<and> \<not> authenticated a'" by (simp add: a' authenticated_def)
  from r s n i j t u not_authenticated_anonymous show ?thesis by blast
qed

text \<open>Logging out after the login of \<open>testuser\<close>, then logging out again.\<close>

theorem logout_then_rehydrate_witness:
  "rehydrate demo_env (fst (logout after_login \<lparr>user = user_doc, loading = False\<rparr>))
     = Inr anonymous \<and>
   user (snd (logout after_login \<lparr>user = user_doc, loading = False\<rparr>)) = JNull \<and>
   storage (fst (logout after_login \<lparr>user = user_doc, loading = False\<rparr>)) ''user'' = None \<and>
   storage (fst (logout after_login \<lparr>user = user_doc, loading = False\<rparr>)) ''token'' = None \<and>
   toastId (fst (logout after_login \<lparr>user = user_doc, loading = False\<rparr>)) = 1 \<and>
   snd (logout (fst (logout after_login \<lparr>user = user_doc, loading = False\<rparr>)) anonymous)
     = anonymous \<and>
   storage (fst (logout (fst (logout after_login \<lparr>user = user_doc, loading = False\<rparr>)) anonymous))
     = storage (fst (logout after_login \<lparr>user = user_doc, loading = False\<rparr>)) \<and>
   toastId (fst (logout (fst (logout after_login \<lparr>user = user_doc, loading = False\<rparr>)) anonymous))
     = 2"
proof -
  let ?a = "\<lparr>user = user_doc, loading = False\<rparr>"
  let ?l = "logout after_login ?a"
  let ?m = "logout (fst ?l) anonymous"
  have l: "?l = (fst ?l, snd ?l)" by simp
  have m: "?m = (fst ?m, snd ?m)" by simp
  have i: "toastId after_login = 0"
    by (simp add: after_login_storage)
  note first = logout_then_rehydrate [OF l, of demo_env]
  from first i have f: "rehydrate demo_env (fst ?l) = Inr anonymous" "user (snd ?l) = JNull"
    "storage (fst ?l) ''user'' = None" "storage (fst ?l) ''token'' = None" "toastId (fst ?l) = 1"
    by simp_all
  have n: "user anonymous = JNull" by (simp add: anonymous_def)
  from logout_then_rehydrate [OF m, of demo_env]
  have imp: "user anonymous = JNull \<and> storage (fst ?l) ''user'' = None \<and>
        storage (fst ?l) ''token'' = None \<longrightarrow>
        snd ?m = anonymous \<and> storage (fst ?m) = storage (fst ?l)"
    and t2: "toastId (fst ?m) = toastId (fst ?l) + 1"
    by blast+
  from imp t2 n f
  have s: "snd ?m = anonymous" "storage (fst ?m) = storage (fst ?l)" "toastId (fst ?m) = 2"
    by simp_all
  from f s show ?thesis by simp
qed

text \<open>
  Calling \<open>logout\<close> with no active session is not always a no-op: on the page a 401
  leaves after a login, reloaded, there is no session (startup gives none), yet the
  stored token is still there and \<open>logout\<close> removes it.
\<close>

theorem logout_then_rehydrate_counterexample:
  "rehydrate demo_env expired_page = Inr anonymous \<and>
   storage expired_page ''token'' = Some ''abc'' \<and>
   storage (fst (logout expired_page anonymous)) ''token'' = None \<and>
   storage (fst (logout expired_page anonymous)) \<noteq> storage expired_page"
proof -
  have w: "expired_page = after_login
      \<lparr>requests := requests after_login @
         [\<lparr>req_method = ''GET'', url = ''http://localhost:8000/api/sweets'',
           headers = getAuthHeaders after_login, payload = NoBody\<rparr>],
       storage := ((storage after_login)(''access_token'' := None))(''user'' := None),
       href := ''/login''\<rparr>"
    by (simp add: expired_page_def getSweets_def send_world answered_401_def answering_fields)
  have u: "storage expired_page ''user'' = None" by (simp add: w)
  have c: "storage expired_page ''token'' = Some ''abc''"
    by (simp add: w after_login_storage)
  from u have a: "rehydrate demo_env expired_page = Inr anonymous"
    by (simp add: rehydrate_partial)
  have b: "storage (fst (logout expired_page anonymous)) ''token'' = None"
    by (simp add: logout_def showSuccess_def showToast_def)
  from b c have "storage (fst (logout expired_page anonymous)) ''token'' \<noteq>
      storage expired_page ''token''" by simp
  then have d: "storage (fst (logout expired_page anonymous)) \<noteq> storage expired_page"
    by metis
  from a b c d show ?thesis by simp
qed

subsection \<open>Toasts\<close>
















end
